theory Spec2Isabelle
  imports Main "HOL-Library.AList"
begin

section \<open>The page: elements, storage, listeners\<close>

text \<open>
  The two page scripts (\<^verbatim>\<open>books_app/static/js/main.js\<close>, the emoji variant, and the
  unnamed sibling file, the icon variant) read and write a handful of DOM nodes, the
  \<^verbatim>\<open>theme\<close> entry of local storage and the listener table of the browser. An element
  carries what the scripts touch: its class tokens, its attributes (an ordered
  name/value list, \<^verbatim>\<open>getAttribute\<close> of a missing name is \<^verbatim>\<open>null\<close>, here \<open>None\<close>), its
  text content and \<^verbatim>\<open>style.display\<close>.
\<close>

record element =
  classList :: "string list"
  attributes :: "(string \<times> string) list"
  textContent :: string
  display :: string

definition getAttribute :: "element \<Rightarrow> string \<Rightarrow> string option" where
  "getAttribute e name = map_of (attributes e) name"

definition setAttribute :: "string \<Rightarrow> string \<Rightarrow> element \<Rightarrow> element" where
  "setAttribute name v e = e\<lparr>attributes := AList.update name v (attributes e)\<rparr>"

definition classList_contains :: "element \<Rightarrow> string \<Rightarrow> bool" where
  "classList_contains e c = (c \<in> set (classList e))"

definition classList_remove :: "string \<Rightarrow> element \<Rightarrow> element" where
  "classList_remove c e = e\<lparr>classList := removeAll c (classList e)\<rparr>"

definition classList_add :: "string \<Rightarrow> element \<Rightarrow> element" where
  "classList_add c e =
     (if c \<in> set (classList e) then e else e\<lparr>classList := classList e @ [c]\<rparr>)"

definition classList_toggle :: "string \<Rightarrow> element \<Rightarrow> element" where
  "classList_toggle c e =
     (if classList_contains e c then classList_remove c e else classList_add c e)"

text \<open>\<^verbatim>\<open>setAttribute(name, !isExpanded)\<close> stores the boolean converted to a string.\<close>

definition String_of_bool :: "bool \<Rightarrow> string" where
  "String_of_bool b = (if b then ''true'' else ''false'')"

datatype js_error = TypeError

datatype completion = Normal | Throw js_error

datatype variant = Emoji | Icons

datatype target = Target_toggleButton | Target_link nat | Target_themeToggle

datatype listener = On_toggleButton_click | On_link_click | On_themeToggle_click variant

text \<open>
  The page holds the result of each lookup the scripts make
  (\<^verbatim>\<open>getElementById('mobile-nav-toggle')\<close>, \<^verbatim>\<open>querySelector('.main-nav')\<close>, the number of
  \<^verbatim>\<open>a\<close> elements inside the navigation container, \<^verbatim>\<open>getElementById('theme-toggle')\<close>,
  \<^verbatim>\<open>querySelector('.sun-icon')\<close>, \<^verbatim>\<open>querySelector('.moon-icon')\<close>, \<^verbatim>\<open>document.body\<close>),
  with \<open>None\<close> for \<^verbatim>\<open>null\<close>; local storage; the calls of \<^verbatim>\<open>setItem\<close> made so far;
  the listeners registered with \<^verbatim>\<open>addEventListener\<close>, in registration order; and the
  exceptions that escaped a listener. The looked-up nodes are taken to be pairwise
  distinct elements.
\<close>

record page =
  toggleButton :: "element option"
  mainNav :: "element option"
  navLinks :: nat
  themeToggle :: "element option"
  sunIcon :: "element option"
  moonIcon :: "element option"
  body :: element
  localStorage :: "(string \<times> string) list"
  setItemCalls :: "(string \<times> string) list"
  listeners :: "(target \<times> listener) list"
  uncaught :: "js_error list"

definition getItem :: "page \<Rightarrow> string \<Rightarrow> string option" where
  "getItem p k = map_of (localStorage p) k"

definition setItem :: "string \<Rightarrow> string \<Rightarrow> page \<Rightarrow> page" where
  "setItem k v p =
     p\<lparr>localStorage := AList.update k v (localStorage p),
       setItemCalls := setItemCalls p @ [(k, v)]\<rparr>"

definition addEventListener :: "target \<Rightarrow> listener \<Rightarrow> page \<Rightarrow> page" where
  "addEventListener t l p = p\<lparr>listeners := listeners p @ [(t, l)]\<rparr>"

section \<open>Menu toggle\<close>

text \<open>
  The click listener of the toggle button. The listener is only registered when both
  captured nodes are non-null; the \<open>None\<close> branches are what dereferencing \<^verbatim>\<open>null\<close>
  would do.
\<close>

definition toggleButton_click :: "page \<Rightarrow> completion \<times> page" where
  "toggleButton_click p =
     (case mainNav p of
        None \<Rightarrow> (Throw TypeError, p)
      | Some nav \<Rightarrow>
          let p1 = p\<lparr>mainNav := Some (classList_toggle ''is-open'' nav)\<rparr> in
          (case toggleButton p1 of
             None \<Rightarrow> (Throw TypeError, p1)
           | Some this \<Rightarrow>
               let isExpanded = (getAttribute this ''aria-expanded'' = Some ''true'') in
               (Normal,
                p1\<lparr>toggleButton :=
                     Some (setAttribute ''aria-expanded'' (String_of_bool (\<not> isExpanded)) this)\<rparr>)))"

definition link_click :: "page \<Rightarrow> completion \<times> page" where
  "link_click p =
     (case mainNav p of
        None \<Rightarrow> (Throw TypeError, p)
      | Some nav \<Rightarrow>
          if classList_contains nav ''is-open'' then
            let p1 = p\<lparr>mainNav := Some (classList_remove ''is-open'' nav)\<rparr> in
            (case toggleButton p1 of
               None \<Rightarrow> (Throw TypeError, p1)
             | Some b \<Rightarrow>
                 (Normal, p1\<lparr>toggleButton := Some (setAttribute ''aria-expanded'' ''false'' b)\<rparr>))
          else (Normal, p))"

text \<open>Lines 4 to 25 of both scripts: the guard, the toggle listener, one listener per link.\<close>

definition init_menu_toggle :: "page \<Rightarrow> page" where
  "init_menu_toggle p =
     (if toggleButton p \<noteq> None \<and> mainNav p \<noteq> None then
        fold (\<lambda>i. addEventListener (Target_link i) On_link_click) [0..<navLinks p]
          (addEventListener Target_toggleButton On_toggleButton_click p)
      else p)"

section \<open>Theme toggle\<close>

text \<open>\<^verbatim>\<open>localStorage.getItem('theme') || 'light'\<close>: \<^verbatim>\<open>null\<close> and the empty string are falsy.\<close>

definition savedTheme :: "page \<Rightarrow> string" where
  "savedTheme p =
     (case getItem p ''theme'' of
        None \<Rightarrow> ''light''
      | Some v \<Rightarrow> if v = [] then ''light'' else v)"

text \<open>The two emoji of the source, as the UTF-8 bytes of the file.\<close>

definition sun_emoji :: string where
  "sun_emoji = [CHR 0xE2, CHR 0x98, CHR 0x80, CHR 0xEF, CHR 0xB8, CHR 0x8F]"

definition moon_emoji :: string where
  "moon_emoji = [CHR 0xF0, CHR 0x9F, CHR 0x8C, CHR 0x99]"

definition updateEmoji :: "string \<Rightarrow> page \<Rightarrow> completion \<times> page" where
  "updateEmoji theme p =
     (case themeToggle p of
        None \<Rightarrow> (Normal, p)
      | Some t \<Rightarrow>
          (Normal,
           p\<lparr>themeToggle :=
                Some (t\<lparr>textContent := (if theme = ''dark'' then sun_emoji else moon_emoji)\<rparr>)\<rparr>))"

text \<open>
  \<^verbatim>\<open>updateIcons\<close> of the icon variant dereferences both icon nodes without a guard:
  a \<^verbatim>\<open>null\<close> icon throws at the statement that reads its \<^verbatim>\<open>style\<close>, after the
  statements before it have taken effect.
\<close>

definition set_display :: "string \<Rightarrow> element \<Rightarrow> element" where
  "set_display v e = e\<lparr>display := v\<rparr>"

definition updateIcons :: "string \<Rightarrow> page \<Rightarrow> completion \<times> page" where
  "updateIcons theme p =
     (let (sun, moon) = (if theme = ''dark'' then (''none'', ''inline'') else (''inline'', ''none'')) in
      case sunIcon p of
        None \<Rightarrow> (Throw TypeError, p)
      | Some s \<Rightarrow>
          let p1 = p\<lparr>sunIcon := Some (set_display sun s)\<rparr> in
          (case moonIcon p1 of
             None \<Rightarrow> (Throw TypeError, p1)
           | Some m \<Rightarrow> (Normal, p1\<lparr>moonIcon := Some (set_display moon m)\<rparr>)))"

fun updateIndicator :: "variant \<Rightarrow> string \<Rightarrow> page \<Rightarrow> completion \<times> page" where
  "updateIndicator Emoji theme p = updateEmoji theme p"
| "updateIndicator Icons theme p = updateIcons theme p"

definition data_theme :: "page \<Rightarrow> string option" where
  "data_theme p = getAttribute (body p) ''data-theme''"

text \<open>The click listener of the theme toggle; the two variants differ in the last call.\<close>

definition themeToggle_click :: "variant \<Rightarrow> page \<Rightarrow> completion \<times> page" where
  "themeToggle_click v p =
     (let currentTheme = getAttribute (body p) ''data-theme'';
          newTheme = (if currentTheme = Some ''dark'' then ''light'' else ''dark'');
          p1 = p\<lparr>body := setAttribute ''data-theme'' newTheme (body p)\<rparr>;
          p2 = setItem ''theme'' newTheme p1
      in updateIndicator v newTheme p2)"

text \<open>
  The body of the \<^verbatim>\<open>DOMContentLoaded\<close> listener. An exception leaves the body at once,
  so the statements after the throwing one do not run.
\<close>

definition DOMContentLoaded :: "variant \<Rightarrow> page \<Rightarrow> completion \<times> page" where
  "DOMContentLoaded v p =
     (let p1 = init_menu_toggle p;
          theme = savedTheme p1;
          p2 = p1\<lparr>body := setAttribute ''data-theme'' theme (body p1)\<rparr>
      in case updateIndicator v theme p2 of
           (Throw e, p3) \<Rightarrow> (Throw e, p3)
         | (Normal, p3) \<Rightarrow>
             (Normal,
              if themeToggle p3 \<noteq> None
              then addEventListener Target_themeToggle (On_themeToggle_click v) p3
              else p3))"

section \<open>Event dispatch\<close>

text \<open>
  The browser calls each listener on its own; an exception that escapes one is reported
  and the state it left stays.
\<close>

definition report :: "completion \<times> page \<Rightarrow> page" where
  "report r = (case r of (Normal, p) \<Rightarrow> p | (Throw e, p) \<Rightarrow> p\<lparr>uncaught := uncaught p @ [e]\<rparr>)"

fun run_listener :: "listener \<Rightarrow> page \<Rightarrow> completion \<times> page" where
  "run_listener On_toggleButton_click p = toggleButton_click p"
| "run_listener On_link_click p = link_click p"
| "run_listener (On_themeToggle_click v) p = themeToggle_click v p"

definition listeners_for :: "target \<Rightarrow> page \<Rightarrow> listener list" where
  "listeners_for t p = map snd (filter (\<lambda>tl. fst tl = t) (listeners p))"

definition click :: "target \<Rightarrow> page \<Rightarrow> page" where
  "click t p = fold (\<lambda>l q. report (run_listener l q)) (listeners_for t p) p"

text \<open>
  Loading a page: a new document has no listeners and no reported exception; the
  browser then fires \<^verbatim>\<open>DOMContentLoaded\<close>.
\<close>

definition page_load :: "variant \<Rightarrow> page \<Rightarrow> page" where
  "page_load v p =
     report (DOMContentLoaded v (p\<lparr>setItemCalls := [], listeners := [], uncaught := []\<rparr>))"

definition is_open :: "page \<Rightarrow> bool" where
  "is_open p = (case mainNav p of None \<Rightarrow> False | Some nav \<Rightarrow> classList_contains nav ''is-open'')"

definition aria_expanded :: "page \<Rightarrow> string option" where
  "aria_expanded p = (case toggleButton p of None \<Rightarrow> None | Some b \<Rightarrow> getAttribute b ''aria-expanded'')"

section \<open>Service worker\<close>

text \<open>
  \<^verbatim>\<open>static/sw.js\<close>. The worker's global state is its console, the cache storage (which the
  script never touches) and the requests it has sent to the network. The network is a
  parameter: it settles a request with a response or rejects it. \<^verbatim>\<open>fetch\<close> sends the
  request it is given and returns what the network settles it with.
\<close>

datatype 'r settled = Fulfilled 'r | Rejected

record ('q, 'r) worker =
  console :: "string list"
  caches :: "(string \<times> ('q \<times> 'r) list) list"
  fetched :: "'q list"

record ('q, 'r) fetch_event =
  request :: 'q
  responded :: "'r settled option"

definition console_log :: "string \<Rightarrow> ('q, 'r) worker \<Rightarrow> ('q, 'r) worker" where
  "console_log msg w = w\<lparr>console := console w @ [msg]\<rparr>"

definition fetch :: "('q \<Rightarrow> 'r settled) \<Rightarrow> 'q \<Rightarrow> ('q, 'r) worker \<Rightarrow> 'r settled \<times> ('q, 'r) worker" where
  "fetch net rq w = (net rq, w\<lparr>fetched := fetched w @ [rq]\<rparr>)"

definition respondWith :: "'r settled \<Rightarrow> ('q, 'r) fetch_event \<Rightarrow> ('q, 'r) fetch_event" where
  "respondWith r ev = ev\<lparr>responded := Some r\<rparr>"

definition on_install :: "('q, 'r) worker \<Rightarrow> ('q, 'r) worker" where
  "on_install w = console_log ''Service Worker: Installed'' w"

definition on_fetch ::
  "('q \<Rightarrow> 'r settled) \<Rightarrow> ('q, 'r) fetch_event \<Rightarrow> ('q, 'r) worker
     \<Rightarrow> ('q, 'r) fetch_event \<times> ('q, 'r) worker" where
  "on_fetch net ev w = (let (r, w') = fetch net (request ev) w in (respondWith r ev, w'))"

text \<open>
  What the page receives for a request the worker intercepts: the browser builds the
  event, runs the listener and hands the page what \<^verbatim>\<open>respondWith\<close> was given; with no
  call of \<^verbatim>\<open>respondWith\<close> it would send the request itself.
\<close>

definition intercepted ::
  "('q \<Rightarrow> 'r settled) \<Rightarrow> 'q \<Rightarrow> ('q, 'r) worker \<Rightarrow> 'r settled \<times> ('q, 'r) worker" where
  "intercepted net rq w =
     (let (ev, w') = on_fetch net \<lparr>request = rq, responded = None\<rparr> w in
      (case responded ev of None \<Rightarrow> net rq | Some r \<Rightarrow> r, w'))"

section \<open>Auxiliary notions\<close>

text \<open>Which of the looked-up nodes exist.\<close>

definition present :: "page \<Rightarrow> bool list" where
  "present p = [toggleButton p \<noteq> None, mainNav p \<noteq> None, themeToggle p \<noteq> None,
                sunIcon p \<noteq> None, moonIcon p \<noteq> None]"

text \<open>The listeners the menu block registers, and the one the theme block registers.\<close>

definition nav_listeners :: "page \<Rightarrow> (target \<times> listener) list" where
  "nav_listeners p =
     (if toggleButton p \<noteq> None \<and> mainNav p \<noteq> None
      then (Target_toggleButton, On_toggleButton_click) #
           map (\<lambda>i. (Target_link i, On_link_click)) [0..<navLinks p]
      else [])"

definition indicator_faults :: "variant \<Rightarrow> page \<Rightarrow> bool" where
  "indicator_faults v p = (v = Icons \<and> (sunIcon p = None \<or> moonIcon p = None))"

definition theme_listeners :: "variant \<Rightarrow> page \<Rightarrow> (target \<times> listener) list" where
  "theme_listeners v p =
     (if themeToggle p \<noteq> None \<and> \<not> indicator_faults v p
      then [(Target_themeToggle, On_themeToggle_click v)] else [])"

text \<open>A state reached on a page that was loaded from \<open>p0\<close> with variant \<open>v\<close>.\<close>

definition loaded :: "variant \<Rightarrow> page \<Rightarrow> page \<Rightarrow> bool" where
  "loaded v p0 s =
     (navLinks s = navLinks p0 \<and> present s = present p0 \<and>
      listeners s = nav_listeners p0 @ theme_listeners v p0)"

definition menu_wired :: "variant \<Rightarrow> page \<Rightarrow> page \<Rightarrow> bool" where
  "menu_wired v p0 s = (loaded v p0 s \<and> toggleButton s \<noteq> None \<and> mainNav s \<noteq> None)"

text \<open>
  Lockstep of the menu: the attribute is the string \<^verbatim>\<open>true\<close> when the container is open
  and the string \<^verbatim>\<open>false\<close> when it is closed. The weak form only says that the container
  is open exactly when the attribute is \<^verbatim>\<open>true\<close>; it is what markup with no
  \<^verbatim>\<open>aria-expanded\<close> attribute and a closed menu satisfies.
\<close>

definition lockstep :: "page \<Rightarrow> bool" where
  "lockstep s = (aria_expanded s = Some (if is_open s then ''true'' else ''false''))"

definition weak_lockstep :: "page \<Rightarrow> bool" where
  "weak_lockstep s = (is_open s = (aria_expanded s = Some ''true''))"

text \<open>The value the theme listener computes from the current attribute.\<close>

definition toggled :: "string option \<Rightarrow> string" where
  "toggled currentTheme = (if currentTheme = Some ''dark'' then ''light'' else ''dark'')"

text \<open>The states a page goes through under a sequence of clicks, the first one included.\<close>

fun run_states :: "page \<Rightarrow> target list \<Rightarrow> page list" where
  "run_states s [] = [s]"
| "run_states s (t # ts) = s # run_states (click t s) ts"

text \<open>
  What the theme machine shows of a state: the document attribute, the stored entries
  and the writes to storage so far.
\<close>

definition theme_observation :: "page \<Rightarrow> string option \<times> (string \<times> string) list \<times> (string \<times> string) list" where
  "theme_observation s = (data_theme s, localStorage s, setItemCalls s)"

definition theme_trace ::
  "variant \<Rightarrow> page \<Rightarrow> target list \<Rightarrow> (string option \<times> (string \<times> string) list \<times> (string \<times> string) list) list" where
  "theme_trace v p ts = map theme_observation (run_states (page_load v p) ts)"

subsection \<open>Example pages\<close>

definition blank :: element where
  "blank = \<lparr>classList = [], attributes = [], textContent = [], display = []\<rparr>"

definition demo_button :: element where
  "demo_button = blank\<lparr>attributes := [(''id'', ''mobile-nav-toggle''), (''aria-expanded'', ''false'')]\<rparr>"

definition demo_nav :: element where
  "demo_nav = blank\<lparr>classList := [''main-nav'']\<rparr>"

text \<open>A page with every control, a closed menu of three links and nothing stored.\<close>

definition demo_page :: page where
  "demo_page =
     \<lparr>toggleButton = Some demo_button, mainNav = Some demo_nav, navLinks = 3,
      themeToggle = Some (blank\<lparr>attributes := [(''id'', ''theme-toggle'')]\<rparr>),
      sunIcon = Some (blank\<lparr>classList := [''sun-icon'']\<rparr>),
      moonIcon = Some (blank\<lparr>classList := [''moon-icon'']\<rparr>),
      body = blank, localStorage = [], setItemCalls = [], listeners = [], uncaught = []\<rparr>"

text \<open>A page with none of the controls and no icon.\<close>

definition bare_page :: page where
  "bare_page =
     \<lparr>toggleButton = None, mainNav = None, navLinks = 0, themeToggle = None,
      sunIcon = None, moonIcon = None,
      body = blank, localStorage = [], setItemCalls = [], listeners = [], uncaught = []\<rparr>"

text \<open>The same page with a stored theme, without the toggle button, without the icons.\<close>

definition dark_page :: page where
  "dark_page = demo_page\<lparr>localStorage := [(''theme'', ''dark'')]\<rparr>"

definition blue_page :: page where
  "blue_page = demo_page\<lparr>localStorage := [(''theme'', ''blue'')]\<rparr>"

definition no_button_page :: page where
  "no_button_page = demo_page\<lparr>toggleButton := None\<rparr>"

definition no_icons_page :: page where
  "no_icons_page = demo_page\<lparr>sunIcon := None, moonIcon := None\<rparr>"

text \<open>Markup that starts out of step: the menu open, the attribute \<^verbatim>\<open>false\<close>.\<close>

definition out_of_step_page :: page where
  "out_of_step_page = demo_page\<lparr>mainNav := Some (demo_nav\<lparr>classList := [''main-nav'', ''is-open'']\<rparr>)\<rparr>"

section \<open>Basic facts\<close>

lemma contains_toggle: "classList_contains (classList_toggle c e) c = (\<not> classList_contains e c)"
  by (simp add: classList_toggle_def classList_contains_def classList_remove_def classList_add_def)

lemma contains_remove: "\<not> classList_contains (classList_remove c e) c"
  by (simp add: classList_contains_def classList_remove_def)

lemma getAttribute_setAttribute:
  "getAttribute (setAttribute n v e) m = (if m = n then Some v else getAttribute e m)"
  by (simp add: getAttribute_def setAttribute_def update_conv')

lemma classList_setAttribute: "classList (setAttribute n v e) = classList e"
  by (simp add: setAttribute_def)

lemma fold_addEventListener:
  "fold (\<lambda>i. addEventListener (T i) l) xs p = p\<lparr>listeners := listeners p @ map (\<lambda>i. (T i, l)) xs\<rparr>"
  by (induction xs arbitrary: p) (simp_all add: addEventListener_def)

lemma init_menu_toggle_eq:
  "init_menu_toggle p = p\<lparr>listeners := listeners p @ nav_listeners p\<rparr>"
  by (simp add: init_menu_toggle_def nav_listeners_def fold_addEventListener addEventListener_def)

lemma updateIndicator_frame:
  "toggleButton (snd (updateIndicator v th p)) = toggleButton p"
  "mainNav (snd (updateIndicator v th p)) = mainNav p"
  "navLinks (snd (updateIndicator v th p)) = navLinks p"
  "body (snd (updateIndicator v th p)) = body p"
  "localStorage (snd (updateIndicator v th p)) = localStorage p"
  "setItemCalls (snd (updateIndicator v th p)) = setItemCalls p"
  "listeners (snd (updateIndicator v th p)) = listeners p"
  "uncaught (snd (updateIndicator v th p)) = uncaught p"
  "present (snd (updateIndicator v th p)) = present p"
  by (cases v; simp add: updateEmoji_def updateIcons_def present_def Let_def split: option.splits prod.splits)+

lemma updateIndicator_completion:
  "fst (updateIndicator v th p) =
     (if v = Icons \<and> (sunIcon p = None \<or> moonIcon p = None) then Throw TypeError else Normal)"
  by (cases v; simp add: updateEmoji_def updateIcons_def Let_def split: option.splits prod.splits)

lemma report_frame:
  "toggleButton (report r) = toggleButton (snd r)"
  "mainNav (report r) = mainNav (snd r)"
  "navLinks (report r) = navLinks (snd r)"
  "themeToggle (report r) = themeToggle (snd r)"
  "sunIcon (report r) = sunIcon (snd r)"
  "moonIcon (report r) = moonIcon (snd r)"
  "body (report r) = body (snd r)"
  "localStorage (report r) = localStorage (snd r)"
  "setItemCalls (report r) = setItemCalls (snd r)"
  "listeners (report r) = listeners (snd r)"
  "present (report r) = present (snd r)"
  by (simp_all add: report_def present_def split: prod.splits completion.splits)

lemma report_Normal: "report (Normal, p) = p"
  by (simp add: report_def)

lemma toggleButton_click_frame:
  "navLinks (snd (toggleButton_click p)) = navLinks p"
  "themeToggle (snd (toggleButton_click p)) = themeToggle p"
  "sunIcon (snd (toggleButton_click p)) = sunIcon p"
  "moonIcon (snd (toggleButton_click p)) = moonIcon p"
  "body (snd (toggleButton_click p)) = body p"
  "localStorage (snd (toggleButton_click p)) = localStorage p"
  "setItemCalls (snd (toggleButton_click p)) = setItemCalls p"
  "listeners (snd (toggleButton_click p)) = listeners p"
  "present (snd (toggleButton_click p)) = present p"
  by (simp_all add: toggleButton_click_def present_def Let_def split: option.splits)

lemma link_click_frame:
  "navLinks (snd (link_click p)) = navLinks p"
  "themeToggle (snd (link_click p)) = themeToggle p"
  "sunIcon (snd (link_click p)) = sunIcon p"
  "moonIcon (snd (link_click p)) = moonIcon p"
  "body (snd (link_click p)) = body p"
  "localStorage (snd (link_click p)) = localStorage p"
  "setItemCalls (snd (link_click p)) = setItemCalls p"
  "listeners (snd (link_click p)) = listeners p"
  "present (snd (link_click p)) = present p"
  by (simp_all add: link_click_def present_def Let_def split: option.splits)

lemma themeToggle_click_frame:
  "toggleButton (snd (themeToggle_click v p)) = toggleButton p"
  "mainNav (snd (themeToggle_click v p)) = mainNav p"
  "navLinks (snd (themeToggle_click v p)) = navLinks p"
  "listeners (snd (themeToggle_click v p)) = listeners p"
  by (simp_all add: themeToggle_click_def Let_def updateIndicator_frame setItem_def)

lemma present_setItem: "present (setItem k x (p\<lparr>body := b\<rparr>)) = present p"
  by (simp add: present_def setItem_def)

lemma themeToggle_click_present: "present (snd (themeToggle_click v p)) = present p"
  by (simp add: themeToggle_click_def Let_def updateIndicator_frame present_setItem)

lemma run_listener_frame:
  "navLinks (report (run_listener l p)) = navLinks p"
  "listeners (report (run_listener l p)) = listeners p"
  "present (report (run_listener l p)) = present p"
  by (cases l; simp add: report_frame toggleButton_click_frame link_click_frame themeToggle_click_frame themeToggle_click_present)+

lemma fold_listeners_frame:
  "navLinks (fold (\<lambda>l q. report (run_listener l q)) ls p) = navLinks p \<and>
   listeners (fold (\<lambda>l q. report (run_listener l q)) ls p) = listeners p \<and>
   present (fold (\<lambda>l q. report (run_listener l q)) ls p) = present p"
  by (induction ls arbitrary: p) (simp_all add: run_listener_frame)

lemma click_frame:
  "navLinks (click t p) = navLinks p"
  "listeners (click t p) = listeners p"
  "present (click t p) = present p"
  by (simp_all add: click_def fold_listeners_frame)

lemma fold_click_frame:
  "navLinks (fold click ts p) = navLinks p \<and>
   listeners (fold click ts p) = listeners p \<and>
   present (fold click ts p) = present p"
  by (induction ts arbitrary: p) (simp_all add: click_frame)

lemma savedTheme_cong: "localStorage q = localStorage p \<Longrightarrow> savedTheme q = savedTheme p"
  by (simp add: savedTheme_def getItem_def)

lemma present_nth:
  "present q = present p \<Longrightarrow>
     (toggleButton q = None) = (toggleButton p = None) \<and>
     (mainNav q = None) = (mainNav p = None) \<and>
     (themeToggle q = None) = (themeToggle p = None) \<and>
     (sunIcon q = None) = (sunIcon p = None) \<and>
     (moonIcon q = None) = (moonIcon p = None)"
  by (auto simp add: present_def)

lemma DOMContentLoaded_result:
  fixes v p
  defines "r \<equiv> DOMContentLoaded v p"
  shows "fst r = (if indicator_faults v p then Throw TypeError else Normal)"
    and "toggleButton (snd r) = toggleButton p"
    and "mainNav (snd r) = mainNav p"
    and "navLinks (snd r) = navLinks p"
    and "body (snd r) = setAttribute ''data-theme'' (savedTheme p) (body p)"
    and "localStorage (snd r) = localStorage p"
    and "setItemCalls (snd r) = setItemCalls p"
    and "uncaught (snd r) = uncaught p"
    and "present (snd r) = present p"
    and "listeners (snd r) = listeners p @ nav_listeners p @ theme_listeners v p"
proof -
  define p1 where "p1 = init_menu_toggle p"
  define p2 where "p2 = p1\<lparr>body := setAttribute ''data-theme'' (savedTheme p1) (body p1)\<rparr>"
  define u where "u = updateIndicator v (savedTheme p1) p2"
  have p1: "p1 = p\<lparr>listeners := listeners p @ nav_listeners p\<rparr>"
    by (simp add: p1_def init_menu_toggle_eq)
  have th: "savedTheme p1 = savedTheme p"
    by (rule savedTheme_cong) (simp add: p1)
  have pres2: "present p2 = present p"
    by (simp add: p2_def p1 present_def)
  have fu: "fst u = (if indicator_faults v p then Throw TypeError else Normal)"
    by (simp add: u_def updateIndicator_completion indicator_faults_def p2_def p1)
  have pres3: "present (snd u) = present p"
    by (simp add: u_def updateIndicator_frame pres2)
  have r1: "fst r = fst u"
    by (cases u; cases "fst u"; simp add: r_def DOMContentLoaded_def Let_def p1_def p2_def u_def)
  have r2: "snd r = (if fst u = Normal \<and> themeToggle (snd u) \<noteq> None
                     then addEventListener Target_themeToggle (On_themeToggle_click v) (snd u)
                     else snd u)"
    by (cases u; cases "fst u"; simp add: r_def DOMContentLoaded_def Let_def p1_def p2_def u_def)
  have tt: "(themeToggle (snd u) = None) = (themeToggle p = None)"
    using present_nth [OF pres3] by simp
  have u_frame:
    "toggleButton (snd u) = toggleButton p" "mainNav (snd u) = mainNav p"
    "navLinks (snd u) = navLinks p"
    "body (snd u) = setAttribute ''data-theme'' (savedTheme p) (body p)"
    "localStorage (snd u) = localStorage p" "setItemCalls (snd u) = setItemCalls p"
    "uncaught (snd u) = uncaught p" "listeners (snd u) = listeners p @ nav_listeners p"
    by (simp_all add: u_def updateIndicator_frame p2_def th) (simp_all add: p1)
  show "fst r = (if indicator_faults v p then Throw TypeError else Normal)"
    by (simp add: r1 fu)
  show "toggleButton (snd r) = toggleButton p"
    by (simp add: r2 addEventListener_def u_frame)
  show "mainNav (snd r) = mainNav p"
    by (simp add: r2 addEventListener_def u_frame)
  show "navLinks (snd r) = navLinks p"
    by (simp add: r2 addEventListener_def u_frame)
  show "body (snd r) = setAttribute ''data-theme'' (savedTheme p) (body p)"
    by (simp add: r2 addEventListener_def u_frame)
  show "localStorage (snd r) = localStorage p"
    by (simp add: r2 addEventListener_def u_frame)
  show "setItemCalls (snd r) = setItemCalls p"
    by (simp add: r2 addEventListener_def u_frame)
  show "uncaught (snd r) = uncaught p"
    by (simp add: r2 addEventListener_def u_frame)
  show "present (snd r) = present p"
    using pres3 by (simp add: r2 addEventListener_def present_def)
  show "listeners (snd r) = listeners p @ nav_listeners p @ theme_listeners v p"
    by (simp add: r2 addEventListener_def u_frame theme_listeners_def fu tt)
qed

lemma page_load_result:
  shows "toggleButton (page_load v p) = toggleButton p"
    and "mainNav (page_load v p) = mainNav p"
    and "navLinks (page_load v p) = navLinks p"
    and "body (page_load v p) = setAttribute ''data-theme'' (savedTheme p) (body p)"
    and "localStorage (page_load v p) = localStorage p"
    and "setItemCalls (page_load v p) = []"
    and "present (page_load v p) = present p"
    and "listeners (page_load v p) = nav_listeners p @ theme_listeners v p"
    and "uncaught (page_load v p) = (if indicator_faults v p then [TypeError] else [])"
proof -
  define q where "q = p\<lparr>setItemCalls := [], listeners := [], uncaught := []\<rparr>"
  have q: "nav_listeners q = nav_listeners p" "theme_listeners v q = theme_listeners v p"
    "indicator_faults v q = indicator_faults v p" "present q = present p"
    by (simp_all add: q_def nav_listeners_def theme_listeners_def indicator_faults_def present_def)
  have sv: "savedTheme q = savedTheme p"
    by (rule savedTheme_cong) (simp add: q_def)
  have pl: "page_load v p = report (DOMContentLoaded v q)"
    by (simp add: page_load_def q_def)
  show "toggleButton (page_load v p) = toggleButton p"
    by (simp add: pl report_frame DOMContentLoaded_result) (simp add: q_def)
  show "mainNav (page_load v p) = mainNav p"
    by (simp add: pl report_frame DOMContentLoaded_result) (simp add: q_def)
  show "navLinks (page_load v p) = navLinks p"
    by (simp add: pl report_frame DOMContentLoaded_result) (simp add: q_def)
  show "body (page_load v p) = setAttribute ''data-theme'' (savedTheme p) (body p)"
    by (simp add: pl report_frame DOMContentLoaded_result sv) (simp add: q_def)
  show "localStorage (page_load v p) = localStorage p"
    by (simp add: pl report_frame DOMContentLoaded_result) (simp add: q_def)
  show "setItemCalls (page_load v p) = []"
    by (simp add: pl report_frame DOMContentLoaded_result) (simp add: q_def)
  show "present (page_load v p) = present p"
    by (simp add: pl report_frame DOMContentLoaded_result q)
  show "listeners (page_load v p) = nav_listeners p @ theme_listeners v p"
    by (simp add: pl report_frame DOMContentLoaded_result q) (simp add: q_def)
  have "uncaught (report r) = uncaught (snd r) @ (case fst r of Normal \<Rightarrow> [] | Throw e \<Rightarrow> [e])" for r
    by (simp add: report_def split: prod.splits completion.splits)
  then show "uncaught (page_load v p) = (if indicator_faults v p then [TypeError] else [])"
    by (simp add: pl DOMContentLoaded_result q) (simp add: q_def)
qed

lemma listeners_for_append:
  "listeners q = xs @ ys \<Longrightarrow>
   listeners_for t q = map snd (filter (\<lambda>tl. fst tl = t) xs) @ map snd (filter (\<lambda>tl. fst tl = t) ys)"
  by (simp add: listeners_for_def)

lemma filter_eq_upt: "filter (\<lambda>j. j = i) [0..<n] = (if i < n then [i] else [])"
  by (induction n) auto

lemma nav_listeners_for:
  "map snd (filter (\<lambda>tl. fst tl = t) (nav_listeners p)) =
     (if toggleButton p \<noteq> None \<and> mainNav p \<noteq> None then
        (case t of Target_toggleButton \<Rightarrow> [On_toggleButton_click]
         | Target_link i \<Rightarrow> if i < navLinks p then [On_link_click] else []
         | Target_themeToggle \<Rightarrow> [])
      else [])"
proof -
  have "filter (\<lambda>tl. fst tl = Target_link i) (map (\<lambda>i. (Target_link i, l)) [0..<n])
        = map (\<lambda>i. (Target_link i, l)) (filter (\<lambda>j. j = i) [0..<n])" for i l n
    by (induction n) auto
  then show ?thesis
    by (cases t) (simp_all add: nav_listeners_def filter_map o_def filter_eq_upt)
qed

lemma theme_listeners_for:
  "map snd (filter (\<lambda>tl. fst tl = t) (theme_listeners v p)) =
     (if t = Target_themeToggle \<and> themeToggle p \<noteq> None \<and> \<not> indicator_faults v p
      then [On_themeToggle_click v] else [])"
  by (simp add: theme_listeners_def)

lemma toggleButton_click_nav:
  assumes "toggleButton p \<noteq> None" and "mainNav p \<noteq> None"
  shows "fst (toggleButton_click p) = Normal"
    and "is_open (snd (toggleButton_click p)) = (\<not> is_open p)"
    and "aria_expanded (snd (toggleButton_click p)) =
           Some (String_of_bool (aria_expanded p \<noteq> Some ''true''))"
  using assms
  by (auto simp add: toggleButton_click_def is_open_def aria_expanded_def Let_def
        contains_toggle getAttribute_setAttribute)

lemma link_click_nav:
  assumes "toggleButton p \<noteq> None" and "mainNav p \<noteq> None"
  shows "fst (link_click p) = Normal"
    and "is_open (snd (link_click p)) = False"
    and "aria_expanded (snd (link_click p)) =
           (if is_open p then Some ''false'' else aria_expanded p)"
  using assms
  by (cases "classList_contains (the (mainNav p)) ''is-open''";
      auto simp add: link_click_def is_open_def aria_expanded_def Let_def
        contains_remove getAttribute_setAttribute)+

lemma link_click_closed: "\<not> is_open p \<Longrightarrow> mainNav p \<noteq> None \<Longrightarrow> link_click p = (Normal, p)"
  by (auto simp add: link_click_def is_open_def)

lemma themeToggle_click_nav:
  "is_open (report (themeToggle_click v p)) = is_open p"
  "aria_expanded (report (themeToggle_click v p)) = aria_expanded p"
  by (simp_all add: is_open_def aria_expanded_def report_frame themeToggle_click_frame)

lemma report_nav:
  "is_open (report r) = is_open (snd r)" "aria_expanded (report r) = aria_expanded (snd r)"
  by (simp_all add: is_open_def aria_expanded_def report_frame)

lemma click_single: "listeners_for t p = [l] \<Longrightarrow> click t p = report (run_listener l p)"
  by (simp add: click_def)

lemma click_none: "listeners_for t p = [] \<Longrightarrow> click t p = p"
  by (simp add: click_def)

lemma loaded_load: "loaded v p (page_load v p)"
  by (simp add: loaded_def page_load_result)

lemma loaded_click: "loaded v p0 s \<Longrightarrow> loaded v p0 (click t s)"
  by (simp add: loaded_def click_frame)

lemma loaded_fold: "loaded v p0 s \<Longrightarrow> loaded v p0 (fold click ts s)"
  by (induction ts arbitrary: s) (simp_all add: loaded_click)

lemma loaded_listeners_for:
  assumes "loaded v p0 s"
  shows "listeners_for t s =
     (case t of
        Target_toggleButton \<Rightarrow>
          if toggleButton s \<noteq> None \<and> mainNav s \<noteq> None then [On_toggleButton_click] else []
      | Target_link i \<Rightarrow>
          if toggleButton s \<noteq> None \<and> mainNav s \<noteq> None \<and> i < navLinks s then [On_link_click] else []
      | Target_themeToggle \<Rightarrow>
          if themeToggle s \<noteq> None \<and> \<not> indicator_faults v s then [On_themeToggle_click v] else [])"
proof -
  from assms have l: "listeners s = nav_listeners p0 @ theme_listeners v p0"
    and pr: "present s = present p0" and n: "navLinks s = navLinks p0"
    by (simp_all add: loaded_def)
  from present_nth [OF pr] have b0: "(toggleButton s = None) = (toggleButton p0 = None)"
    "(mainNav s = None) = (mainNav p0 = None)"
    and th: "(themeToggle s = None) = (themeToggle p0 = None)"
    and f: "indicator_faults v s = indicator_faults v p0"
    by (simp_all add: indicator_faults_def)
  show ?thesis
    by (cases t) (simp_all add: listeners_for_append [OF l] nav_listeners_for theme_listeners_for b0 n th f)
qed

lemma menu_wired_load:
  "toggleButton p \<noteq> None \<Longrightarrow> mainNav p \<noteq> None \<Longrightarrow> menu_wired v p (page_load v p)"
  by (simp add: menu_wired_def loaded_load page_load_result)

lemma menu_wired_listeners_for:
  assumes "menu_wired v p0 s"
  shows "listeners_for t s =
     (case t of Target_toggleButton \<Rightarrow> [On_toggleButton_click]
      | Target_link i \<Rightarrow> if i < navLinks s then [On_link_click] else []
      | Target_themeToggle \<Rightarrow>
          if themeToggle s \<noteq> None \<and> \<not> indicator_faults v s then [On_themeToggle_click v] else [])"
proof -
  from assms have l: "loaded v p0 s" and b: "toggleButton s \<noteq> None" "mainNav s \<noteq> None"
    by (simp_all add: menu_wired_def)
  show ?thesis
    by (cases t) (simp_all add: loaded_listeners_for [OF l] b)
qed

lemma menu_wired_click: "menu_wired v p0 s \<Longrightarrow> menu_wired v p0 (click t s)"
  using present_nth [of "click t s" s]
  by (simp add: menu_wired_def loaded_click click_frame)

lemma click_toggleButton:
  assumes "menu_wired v p0 s"
  shows "click Target_toggleButton s = snd (toggleButton_click s)"
proof -
  from assms have b: "toggleButton s \<noteq> None" "mainNav s \<noteq> None"
    by (simp_all add: menu_wired_def)
  have "click Target_toggleButton s = report (toggleButton_click s)"
    by (simp add: click_single menu_wired_listeners_for [OF assms])
  then show ?thesis
    using toggleButton_click_nav(1) [OF b]
    by (cases "toggleButton_click s") (simp add: report_Normal)
qed

lemma click_link:
  assumes "menu_wired v p0 s" and "i < navLinks s"
  shows "click (Target_link i) s = snd (link_click s)"
proof -
  from assms have b: "toggleButton s \<noteq> None" "mainNav s \<noteq> None"
    by (simp_all add: menu_wired_def)
  have "click (Target_link i) s = report (link_click s)"
    using assms(2) by (simp add: click_single menu_wired_listeners_for [OF assms(1)])
  then show ?thesis
    using link_click_nav(1) [OF b]
    by (cases "link_click s") (simp add: report_Normal)
qed

lemma click_nav_cases:
  assumes "menu_wired v p0 s"
  shows "(is_open (click t s), aria_expanded (click t s)) \<in>
           {(is_open s, aria_expanded s),
            (\<not> is_open s, Some (String_of_bool (aria_expanded s \<noteq> Some ''true''))),
            (False, if is_open s then Some ''false'' else aria_expanded s)}"
proof (cases t)
  case Target_toggleButton
  then show ?thesis
    using assms toggleButton_click_nav [of s]
    by (simp add: click_toggleButton [OF assms] menu_wired_def)
next
  case (Target_link i)
  show ?thesis
  proof (cases "i < navLinks s")
    case True
    then show ?thesis
      using assms link_click_nav [of s]
      by (simp add: Target_link click_link [OF assms] menu_wired_def)
  next
    case False
    then show ?thesis
      by (simp add: Target_link click_none menu_wired_listeners_for [OF assms])
  qed
next
  case Target_themeToggle
  show ?thesis
  proof (cases "themeToggle s \<noteq> None \<and> \<not> indicator_faults v s")
    case True
    then show ?thesis
      by (simp add: Target_themeToggle click_single menu_wired_listeners_for [OF assms]
            themeToggle_click_nav)
  next
    case False
    then show ?thesis
      using click_none [of Target_themeToggle s]
      by (simp add: Target_themeToggle menu_wired_listeners_for [OF assms])
  qed
qed

lemma weak_lockstep_click:
  assumes "menu_wired v p0 s" and "weak_lockstep s"
  shows "weak_lockstep (click t s)"
  using click_nav_cases [OF assms(1), of t] assms(2)
  by (auto simp add: weak_lockstep_def String_of_bool_def split: if_splits)

lemma lockstep_click:
  assumes "menu_wired v p0 s" and "lockstep s"
  shows "lockstep (click t s)"
  using click_nav_cases [OF assms(1), of t] assms(2)
  by (auto simp add: lockstep_def String_of_bool_def split: if_splits)

lemma lockstep_toggle:
  assumes "menu_wired v p0 s" and "weak_lockstep s"
  shows "lockstep (click Target_toggleButton s)"
  using assms toggleButton_click_nav [of s]
  by (auto simp add: click_toggleButton [OF assms(1)] menu_wired_def lockstep_def
        weak_lockstep_def String_of_bool_def)

lemma menu_wired_fold: "menu_wired v p0 s \<Longrightarrow> menu_wired v p0 (fold click ts s)"
  by (induction ts arbitrary: s) (simp_all add: menu_wired_click)

lemma lockstep_fold:
  "menu_wired v p0 s \<Longrightarrow> lockstep s \<Longrightarrow> lockstep (fold click ts s)"
  by (induction ts arbitrary: s) (simp_all add: menu_wired_click lockstep_click)

lemma lockstep_after_toggle:
  "menu_wired v p0 s \<Longrightarrow> weak_lockstep s \<Longrightarrow> Target_toggleButton \<in> set ts \<Longrightarrow>
     lockstep (fold click ts s)"
proof (induction ts arbitrary: s)
  case Nil
  then show ?case by simp
next
  case (Cons t ts)
  show ?case
  proof (cases "t = Target_toggleButton")
    case True
    with Cons.prems show ?thesis
      by (simp add: lockstep_fold [of v p0] menu_wired_click lockstep_toggle)
  next
    case False
    with Cons.prems have "Target_toggleButton \<in> set ts" by simp
    with Cons.prems show ?thesis
      by (simp add: Cons.IH menu_wired_click weak_lockstep_click)
  qed
qed

lemma nav_state_load:
  "is_open (page_load v p) = is_open p" "aria_expanded (page_load v p) = aria_expanded p"
  by (simp_all add: is_open_def aria_expanded_def page_load_result)

lemma themeToggle_click_theme:
  "data_theme (snd (themeToggle_click v p)) = Some (toggled (data_theme p))"
  "localStorage (snd (themeToggle_click v p)) =
     AList.update ''theme'' (toggled (data_theme p)) (localStorage p)"
  "setItemCalls (snd (themeToggle_click v p)) =
     setItemCalls p @ [(''theme'', toggled (data_theme p))]"
  by (simp_all add: themeToggle_click_def Let_def data_theme_def toggled_def
        updateIndicator_frame setItem_def getAttribute_setAttribute)

lemma report_theme:
  "data_theme (report r) = data_theme (snd r)"
  by (simp add: data_theme_def report_frame)

lemma click_themeToggle:
  assumes "loaded v p0 s" and "themeToggle s \<noteq> None" and "\<not> indicator_faults v s"
  shows "click Target_themeToggle s = report (themeToggle_click v s)"
  using assms by (simp add: click_single loaded_listeners_for)

lemma click_themeToggle_theme:
  assumes "loaded v p0 s" and "themeToggle s \<noteq> None" and "\<not> indicator_faults v s"
  shows "data_theme (click Target_themeToggle s) = Some (toggled (data_theme s))"
    and "localStorage (click Target_themeToggle s) =
           AList.update ''theme'' (toggled (data_theme s)) (localStorage s)"
    and "setItemCalls (click Target_themeToggle s) =
           setItemCalls s @ [(''theme'', toggled (data_theme s))]"
  by (simp_all add: click_themeToggle [OF assms] report_theme report_frame themeToggle_click_theme)

lemma click_other_theme:
  assumes "loaded v p0 s" and "t \<noteq> Target_themeToggle"
  shows "body (click t s) = body s" and "localStorage (click t s) = localStorage s"
    and "setItemCalls (click t s) = setItemCalls s"
proof -
  have "click t s = s \<or> click t s = report (toggleButton_click s) \<or> click t s = report (link_click s)"
    using assms(2)
    by (cases t)
       (simp_all add: click_def loaded_listeners_for [OF assms(1)])
  then show "body (click t s) = body s" and "localStorage (click t s) = localStorage s"
    and "setItemCalls (click t s) = setItemCalls s"
    by (auto simp add: report_frame toggleButton_click_frame link_click_frame)
qed

lemma click_idle_themeToggle:
  assumes "loaded v p0 s" and "themeToggle s = None \<or> indicator_faults v s"
  shows "click Target_themeToggle s = s"
  using assms by (auto simp add: click_none loaded_listeners_for)

lemma savedTheme_update:
  "x \<noteq> [] \<Longrightarrow> localStorage q = AList.update ''theme'' x st \<Longrightarrow> savedTheme q = x"
  by (simp add: savedTheme_def getItem_def update_conv')

lemma toggled_nonempty: "toggled c \<noteq> []"
  by (simp add: toggled_def)

lemma data_theme_load: "data_theme (page_load v p) = Some (savedTheme p)"
  by (simp add: data_theme_def page_load_result getAttribute_setAttribute)

lemma savedTheme_load: "savedTheme (page_load v p) = savedTheme p"
  by (rule savedTheme_cong) (simp add: page_load_result)

lemma theme_in_sync_click:
  assumes "loaded v p0 s" and "data_theme s = Some (savedTheme s)"
  shows "data_theme (click t s) = Some (savedTheme (click t s))"
proof (cases "t = Target_themeToggle")
  case False
  have "savedTheme (click t s) = savedTheme s"
    by (rule savedTheme_cong) (simp add: click_other_theme [OF assms(1) False])
  then show ?thesis
    using assms(2) by (simp add: data_theme_def click_other_theme [OF assms(1) False])
next
  case True
  show ?thesis
  proof (cases "themeToggle s \<noteq> None \<and> \<not> indicator_faults v s")
    case True
    then have a: "themeToggle s \<noteq> None" "\<not> indicator_faults v s" by simp_all
    show ?thesis
      using savedTheme_update [OF toggled_nonempty click_themeToggle_theme(2) [OF assms(1) a]]
      by (simp add: \<open>t = Target_themeToggle\<close> click_themeToggle_theme(1) [OF assms(1) a])
  next
    case False
    then show ?thesis
      using click_idle_themeToggle [OF assms(1)] assms(2)
      by (auto simp add: \<open>t = Target_themeToggle\<close>)
  qed
qed

lemma theme_in_sync_fold:
  "loaded v p0 s \<Longrightarrow> data_theme s = Some (savedTheme s) \<Longrightarrow>
     data_theme (fold click ts s) = Some (savedTheme (fold click ts s))"
  by (induction ts arbitrary: s) (simp_all add: loaded_click theme_in_sync_click)

lemma theme_in_sync_run:
  "data_theme (fold click ts (page_load v p)) = Some (savedTheme (fold click ts (page_load v p)))"
  by (rule theme_in_sync_fold [OF loaded_load]) (simp add: data_theme_load savedTheme_load)

lemma run_present:
  "present (fold click ts (page_load v p)) = present p"
  by (simp add: fold_click_frame page_load_result)

lemma demo_hyps:
  "toggleButton demo_page \<noteq> None" "mainNav demo_page \<noteq> None"
  "\<not> is_open demo_page" "aria_expanded demo_page = Some ''false''"
  "navLinks demo_page = 3"
  by (simp_all add: demo_page_def is_open_def aria_expanded_def demo_button_def demo_nav_def
        blank_def classList_contains_def getAttribute_def)

text \<open>
  The listeners never compare the class with the attribute, so markup that starts out of
  step stays out of step under clicks on the toggle button.
\<close>

lemma out_of_step_stays:
  "is_open out_of_step_page" "aria_expanded out_of_step_page = Some ''false''"
  "\<not> is_open (click Target_toggleButton (page_load Emoji out_of_step_page))"
  "aria_expanded (click Target_toggleButton (page_load Emoji out_of_step_page)) = Some ''true''"
  "is_open ((click Target_toggleButton ^^ 2) (page_load Emoji out_of_step_page))"
  "aria_expanded ((click Target_toggleButton ^^ 2) (page_load Emoji out_of_step_page)) = Some ''false''"
  by code_simp+

lemma demo_opened:
  "is_open (fold click [Target_toggleButton] (page_load Emoji demo_page))"
  by code_simp

lemma run_theme_ready:
  assumes "themeToggle p \<noteq> None" and "\<not> indicator_faults v p"
  shows "loaded v p (fold click ts (page_load v p))"
    and "themeToggle (fold click ts (page_load v p)) \<noteq> None"
    and "\<not> indicator_faults v (fold click ts (page_load v p))"
proof -
  show "loaded v p (fold click ts (page_load v p))"
    by (intro loaded_fold loaded_load)
  from present_nth [OF run_present [of ts v p]] assms
  show "themeToggle (fold click ts (page_load v p)) \<noteq> None"
    and "\<not> indicator_faults v (fold click ts (page_load v p))"
    by (simp_all add: indicator_faults_def)
qed

lemma getItem_update:
  "localStorage q = AList.update k x st \<Longrightarrow> getItem q k = Some x"
  by (simp add: getItem_def update_conv')

lemma demo_fresh_values:
  "getItem (page_load Emoji demo_page) ''theme'' = None"
  "data_theme (page_load Emoji demo_page) = Some ''light''"
  "getItem (click Target_themeToggle (click Target_themeToggle (page_load Emoji demo_page))) ''theme''
     = Some ''light''"
  "data_theme (page_load Emoji (demo_page\<lparr>localStorage := [(''theme'', ''blue'')]\<rparr>)) = Some ''blue''"
  "data_theme (click Target_themeToggle (click Target_themeToggle
       (page_load Emoji (demo_page\<lparr>localStorage := [(''theme'', ''blue'')]\<rparr>)))) = Some ''light''"
  by code_simp+

lemma demo_theme_values:
  "themeToggle demo_page \<noteq> None"
  "sunIcon demo_page \<noteq> None" "moonIcon demo_page \<noteq> None"
  "getItem demo_page ''theme'' = None"
  "getItem dark_page ''theme'' = Some ''dark''"
  "getItem blue_page ''theme'' = Some ''blue''"
  "themeToggle blue_page \<noteq> None"
  "sunIcon blue_page \<noteq> None" "moonIcon blue_page \<noteq> None"
  "themeToggle dark_page \<noteq> None"
  "sunIcon dark_page \<noteq> None" "moonIcon dark_page \<noteq> None"
  by (simp_all add: demo_page_def dark_page_def blue_page_def getItem_def)

lemma click_same_observation:
  assumes le: "loaded Emoji p e" and li: "loaded Icons p i"
    and ok: "themeToggle p = None \<or> (sunIcon p \<noteq> None \<and> moonIcon p \<noteq> None)"
    and obs: "theme_observation e = theme_observation i"
  shows "theme_observation (click t e) = theme_observation (click t i)"
proof (cases "t = Target_themeToggle")
  case False
  show ?thesis
    using obs
    by (simp add: theme_observation_def data_theme_def
          click_other_theme [OF le False] click_other_theme [OF li False])
next
  case True
  from le li have pe: "present e = present p" and pi: "present i = present p"
    by (simp_all add: loaded_def)
  show ?thesis
  proof (cases "themeToggle p = None")
    case True
    with present_nth [OF pe] present_nth [OF pi]
    have "themeToggle e = None" "themeToggle i = None" by simp_all
    then show ?thesis
      using obs click_idle_themeToggle [OF le] click_idle_themeToggle [OF li]
      by (simp add: \<open>t = Target_themeToggle\<close>)
  next
    case False
    with ok present_nth [OF pe] present_nth [OF pi]
    have e: "themeToggle e \<noteq> None" "\<not> indicator_faults Emoji e"
      and i: "themeToggle i \<noteq> None" "\<not> indicator_faults Icons i"
      by (simp_all add: indicator_faults_def)
    from obs have "data_theme e = data_theme i" "localStorage e = localStorage i"
      "setItemCalls e = setItemCalls i"
      by (simp_all add: theme_observation_def)
    then show ?thesis
      by (simp add: \<open>t = Target_themeToggle\<close> theme_observation_def
            click_themeToggle_theme [OF le e] click_themeToggle_theme [OF li i])
  qed
qed

lemma run_states_same_observation:
  assumes ok: "themeToggle p = None \<or> (sunIcon p \<noteq> None \<and> moonIcon p \<noteq> None)"
  shows "loaded Emoji p e \<Longrightarrow> loaded Icons p i \<Longrightarrow> theme_observation e = theme_observation i \<Longrightarrow>
         map theme_observation (run_states e ts) = map theme_observation (run_states i ts)"
proof (induction ts arbitrary: e i)
  case Nil
  then show ?case by simp
next
  case (Cons t ts)
  have "theme_observation (click t e) = theme_observation (click t i)"
    by (rule click_same_observation [OF Cons.prems(1,2) ok Cons.prems(3)])
  with Cons.prems show ?case
    by (simp add: Cons.IH loaded_click)
qed

text \<open>
  With the icons in place whenever the theme control is, the two variants show the same
  theme machine: the document theme, the stored entries and the calls of \<^verbatim>\<open>setItem\<close>
  agree after the load and after each click of any sequence.
\<close>

lemma same_theme_machine_with_icons:
  assumes "themeToggle p = None \<or> (sunIcon p \<noteq> None \<and> moonIcon p \<noteq> None)"
  shows "theme_trace Emoji p ts = theme_trace Icons p ts"
  unfolding theme_trace_def
  by (rule run_states_same_observation [OF assms loaded_load loaded_load])
     (simp add: theme_observation_def data_theme_load page_load_result)

lemma demo_trace:
  "theme_trace Icons demo_page [Target_themeToggle, Target_toggleButton, Target_themeToggle] =
     [(Some ''light'', [], []),
      (Some ''dark'', [(''theme'', ''dark'')], [(''theme'', ''dark'')]),
      (Some ''dark'', [(''theme'', ''dark'')], [(''theme'', ''dark'')]),
      (Some ''light'', [(''theme'', ''light'')], [(''theme'', ''dark''), (''theme'', ''light'')])]"
  by code_simp

lemma load_uncaught:
  "uncaught (page_load Emoji p) = []"
  "uncaught (page_load Icons p) = (if sunIcon p = None \<or> moonIcon p = None then [TypeError] else [])"
  by (simp_all add: page_load_result indicator_faults_def)

lemma emoji_theme_init_without_control:
  assumes "themeToggle p = None"
  shows "uncaught (page_load Emoji p) = []"
    and "data_theme (page_load Emoji p) = Some (savedTheme p)"
    and "listeners_for Target_themeToggle (page_load Emoji p) = []"
    and "click Target_themeToggle (fold click ts (page_load Emoji p)) = fold click ts (page_load Emoji p)"
proof -
  show "uncaught (page_load Emoji p) = []"
    by (simp add: load_uncaught)
  show "data_theme (page_load Emoji p) = Some (savedTheme p)"
    by (rule data_theme_load)
  have l: "loaded Emoji p (fold click us (page_load Emoji p))" for us
    by (intro loaded_fold loaded_load)
  have n: "themeToggle (fold click us (page_load Emoji p)) = None" for us
    using present_nth [OF run_present [of us Emoji p]] assms by simp
  show "listeners_for Target_themeToggle (page_load Emoji p) = []"
    using l [of "[]"] n [of "[]"] by (simp add: loaded_listeners_for)
  show "click Target_themeToggle (fold click ts (page_load Emoji p)) = fold click ts (page_load Emoji p)"
    using click_idle_themeToggle [OF l [of ts]] n [of ts] by simp
qed

lemma no_button_values:
  "toggleButton no_button_page = None" "mainNav no_button_page \<noteq> None"
  "themeToggle no_button_page \<noteq> None" "savedTheme no_button_page = ''light''"
  by (simp_all add: no_button_page_def demo_page_def savedTheme_def getItem_def)

section \<open>Claims\<close>

text \<open>
  C1. The markup of the page is not among the sources; it is a parameter \<open>p\<close>. Following
  the data model of the specification (the attribute mirrors the class), \<open>p\<close> has the
  \<^verbatim>\<open>is-open\<close> class exactly when \<^verbatim>\<open>aria-expanded\<close> is \<^verbatim>\<open>true\<close>: a closed menu with the
  attribute \<^verbatim>\<open>false\<close> or missing, or an open one with \<^verbatim>\<open>true\<close>. On such a page with both
  nodes, after each of any number of clicks on the toggle button the class and the
  attribute are in lockstep: open with \<^verbatim>\<open>true\<close>, closed with \<^verbatim>\<open>false\<close>. The same holds
  after every sequence of clicks on the toggle button, the links and the theme toggle
  that has a click on the toggle button in it. Both script variants behave so.
\<close>

theorem menu_lockstep:
  assumes "toggleButton p \<noteq> None" and "mainNav p \<noteq> None"
    and "is_open p = (aria_expanded p = Some ''true'')"
  shows "lockstep ((click Target_toggleButton ^^ Suc n) (page_load v p)) \<and>
         (Target_toggleButton \<in> set ts \<longrightarrow> lockstep (fold click ts (page_load v p)))"
proof -
  have w: "menu_wired v p (page_load v p)"
    using assms(1,2) by (rule menu_wired_load)
  have k: "weak_lockstep (page_load v p)"
    using assms(3) by (simp add: weak_lockstep_def nav_state_load)
  have "lockstep (fold click (replicate (Suc n) Target_toggleButton) (page_load v p))"
    by (rule lockstep_after_toggle [OF w k]) simp
  then have "lockstep ((click Target_toggleButton ^^ Suc n) (page_load v p))"
    by (simp only: fold_replicate)
  with lockstep_after_toggle [OF w k, of ts] show ?thesis
    by blast
qed

theorem menu_lockstep_witness:
  "toggleButton demo_page \<noteq> None \<and> mainNav demo_page \<noteq> None \<and>
   is_open demo_page = (aria_expanded demo_page = Some ''true'') \<and>
   lockstep ((click Target_toggleButton ^^ Suc 2) (page_load Emoji demo_page)) \<and>
   Target_toggleButton \<in> set [Target_toggleButton, Target_link 0, Target_toggleButton] \<and>
   lockstep (fold click [Target_toggleButton, Target_link 0, Target_toggleButton]
               (page_load Emoji demo_page))"
  using menu_lockstep
          [of demo_page 2 Emoji "[Target_toggleButton, Target_link 0, Target_toggleButton]"]
  by (simp add: demo_hyps)

text \<open>
  C2. A load applies \<^verbatim>\<open>dark\<close> when storage holds \<^verbatim>\<open>dark\<close> and \<^verbatim>\<open>light\<close> when nothing is
  stored, whatever the page and the variant. On a page with the theme control (emoji
  variant), in every state reached by clicks after the load, a click on the control
  flips the document theme, calls \<^verbatim>\<open>setItem('theme', newTheme)\<close> once, leaves storage
  holding the new theme, and a following load of any page with that storage applies it.
\<close>

theorem theme_round_trip:
  assumes "themeToggle p \<noteq> None"
  shows "(getItem m ''theme'' = Some ''dark'' \<longrightarrow> data_theme (page_load v m) = Some ''dark'') \<and>
         (getItem m ''theme'' = None \<longrightarrow> data_theme (page_load v m) = Some ''light'') \<and>
         (let s = fold click ts (page_load Emoji p); s' = click Target_themeToggle s in
            data_theme s' = Some (if data_theme s = Some ''dark'' then ''light'' else ''dark'') \<and>
            setItemCalls s' =
              setItemCalls s @ [(''theme'', if data_theme s = Some ''dark'' then ''light'' else ''dark'')] \<and>
            getItem s' ''theme'' = data_theme s' \<and>
            data_theme (page_load v (m\<lparr>localStorage := localStorage s'\<rparr>)) = data_theme s')"
proof -
  define s where "s = fold click ts (page_load Emoji p)"
  define s' where "s' = click Target_themeToggle s"
  have f: "\<not> indicator_faults Emoji p"
    by (simp add: indicator_faults_def)
  note r = run_theme_ready [OF assms f, of ts, folded s_def]
  note c = click_themeToggle_theme [OF r, folded s'_def]
  have 1: "data_theme s' = Some (if data_theme s = Some ''dark'' then ''light'' else ''dark'')"
    by (simp add: c(1) toggled_def)
  have 2: "setItemCalls s' =
             setItemCalls s @ [(''theme'', if data_theme s = Some ''dark'' then ''light'' else ''dark'')]"
    by (simp add: c(3) toggled_def)
  have 3: "getItem s' ''theme'' = data_theme s'"
    by (simp add: c(1) getItem_update [OF c(2)])
  have "savedTheme (m\<lparr>localStorage := localStorage s'\<rparr>) = toggled (data_theme s)"
    by (rule savedTheme_update [OF toggled_nonempty]) (simp add: c(2))
  then have 4: "data_theme (page_load v (m\<lparr>localStorage := localStorage s'\<rparr>)) = data_theme s'"
    by (simp add: data_theme_load c(1))
  have 5: "getItem m ''theme'' = Some ''dark'' \<longrightarrow> data_theme (page_load v m) = Some ''dark''"
    by (simp add: data_theme_load savedTheme_def)
  have 6: "getItem m ''theme'' = None \<longrightarrow> data_theme (page_load v m) = Some ''light''"
    by (simp add: data_theme_load savedTheme_def)
  from 1 2 3 4 5 6 show ?thesis
    by (simp only: Let_def s_def [symmetric] s'_def [symmetric])
qed

theorem theme_round_trip_witness:
  "themeToggle demo_page \<noteq> None \<and>
   getItem dark_page ''theme'' = Some ''dark'' \<and>
   data_theme (page_load Icons dark_page) = Some ''dark'' \<and>
   getItem demo_page ''theme'' = None \<and>
   data_theme (page_load Emoji demo_page) = Some ''light'' \<and>
   data_theme (click Target_themeToggle (page_load Emoji demo_page)) = Some ''dark'' \<and>
   setItemCalls (click Target_themeToggle (page_load Emoji demo_page)) = [(''theme'', ''dark'')] \<and>
   getItem (click Target_themeToggle (page_load Emoji demo_page)) ''theme'' = Some ''dark'' \<and>
   data_theme (page_load Emoji
       (demo_page\<lparr>localStorage := localStorage (click Target_themeToggle (page_load Emoji demo_page))\<rparr>))
     = Some ''dark''"
  using theme_round_trip [of demo_page dark_page Icons "[]"]
    theme_round_trip [of demo_page demo_page Emoji "[]"]
  by (simp add: demo_theme_values Let_def page_load_result)

text \<open>
  C3, as stated, fails on the code in two ways. On a first visit nothing is stored, and
  two clicks leave \<^verbatim>\<open>light\<close> stored: the stored entry does not return to being absent.
  With \<^verbatim>\<open>blue\<close> stored, the load applies \<^verbatim>\<open>blue\<close> and two clicks end in \<^verbatim>\<open>light\<close>.
\<close>

theorem theme_double_click_counterexample:
  "getItem (click Target_themeToggle (click Target_themeToggle (page_load Emoji demo_page))) ''theme''
     \<noteq> getItem (page_load Emoji demo_page) ''theme'' \<and>
   data_theme (click Target_themeToggle (click Target_themeToggle
       (page_load Emoji (demo_page\<lparr>localStorage := [(''theme'', ''blue'')]\<rparr>))))
     \<noteq> data_theme (page_load Emoji (demo_page\<lparr>localStorage := [(''theme'', ''blue'')]\<rparr>))"
  by code_simp

text \<open>
  C3, amended. On a page with the theme control (emoji variant), in every state reached
  by clicks after the load whose document theme is \<^verbatim>\<open>light\<close> or \<^verbatim>\<open>dark\<close>: two clicks on
  the control return the document theme to its value before the first click, leave
  storage holding that value, and leave the theme a load would read from storage
  (\<open>savedTheme\<close>, the stored value or the default) as it was.
\<close>

theorem theme_double_click:
  assumes "themeToggle p \<noteq> None"
    and "data_theme (fold click ts (page_load Emoji p)) \<in> {Some ''light'', Some ''dark''}"
  shows "let s = fold click ts (page_load Emoji p);
             s2 = click Target_themeToggle (click Target_themeToggle s) in
           data_theme s2 = data_theme s \<and>
           getItem s2 ''theme'' = data_theme s \<and>
           savedTheme s2 = savedTheme s"
proof -
  define s where "s = fold click ts (page_load Emoji p)"
  define s1 where "s1 = click Target_themeToggle s"
  define s2 where "s2 = click Target_themeToggle s1"
  have f: "\<not> indicator_faults Emoji p"
    by (simp add: indicator_faults_def)
  note r = run_theme_ready [OF assms(1) f, of ts, folded s_def]
  note c1 = click_themeToggle_theme [OF r, folded s1_def]
  have "s1 = fold click (ts @ [Target_themeToggle]) (page_load Emoji p)"
    by (simp add: s1_def s_def)
  note r1 = run_theme_ready [OF assms(1) f, of "ts @ [Target_themeToggle]", folded this]
  note c2 = click_themeToggle_theme [OF r1, folded s2_def]
  have sync: "data_theme s = Some (savedTheme s)"
    unfolding s_def by (rule theme_in_sync_run)
  have a: "data_theme s2 = data_theme s"
    using assms(2) by (auto simp add: c2(1) c1(1) toggled_def s_def [symmetric])
  have b: "getItem s2 ''theme'' = data_theme s2"
    by (simp add: c2(1) getItem_update [OF c2(2)])
  have "savedTheme s2 = toggled (data_theme s1)"
    by (rule savedTheme_update [OF toggled_nonempty c2(2)])
  then have c: "savedTheme s2 = savedTheme s"
    using a sync by (simp add: c2(1))
  from a b c show ?thesis
    by (simp add: Let_def s_def [symmetric] s1_def [symmetric] s2_def [symmetric])
qed

theorem theme_double_click_witness:
  "themeToggle demo_page \<noteq> None \<and>
   data_theme (page_load Emoji demo_page) = Some ''light'' \<and>
   data_theme (click Target_themeToggle (click Target_themeToggle (page_load Emoji demo_page)))
     = Some ''light'' \<and>
   getItem (click Target_themeToggle (click Target_themeToggle (page_load Emoji demo_page))) ''theme''
     = Some ''light'' \<and>
   savedTheme (click Target_themeToggle (click Target_themeToggle (page_load Emoji demo_page)))
     = savedTheme (page_load Emoji demo_page)"
  using theme_double_click [of demo_page "[]"] demo_fresh_values(2)
  by (simp add: demo_theme_values Let_def)

text \<open>
  C4. With the menu behaviour in force (both nodes exist) and \<open>i\<close> a link inside the
  navigation container, in every state reached by clicks after the load: a click on the
  link closes an open menu and sets the attribute to \<^verbatim>\<open>false\<close>, and leaves the whole
  page state as it is when the menu is closed.
\<close>

theorem link_click_closes:
  assumes "toggleButton p \<noteq> None" and "mainNav p \<noteq> None" and "i < navLinks p"
  shows "let s = fold click ts (page_load v p); s' = click (Target_link i) s in
           if is_open s then \<not> is_open s' \<and> aria_expanded s' = Some ''false'' else s' = s"
proof -
  define s where "s = fold click ts (page_load v p)"
  have w: "menu_wired v p s"
    unfolding s_def using assms by (intro menu_wired_fold menu_wired_load)
  then have i: "i < navLinks s" and b: "toggleButton s \<noteq> None" "mainNav s \<noteq> None"
    using assms(3) by (simp_all add: menu_wired_def loaded_def)
  have c: "click (Target_link i) s = snd (link_click s)"
    by (rule click_link [OF w i])
  show ?thesis
    using link_click_nav [OF b] link_click_closed [of s] b
    by (simp add: Let_def s_def [symmetric] c)
qed

theorem link_click_closes_witness:
  "toggleButton demo_page \<noteq> None \<and> mainNav demo_page \<noteq> None \<and> 1 < navLinks demo_page \<and>
   is_open (fold click [Target_toggleButton] (page_load Emoji demo_page)) \<and>
   \<not> is_open (click (Target_link 1) (fold click [Target_toggleButton] (page_load Emoji demo_page))) \<and>
   aria_expanded (click (Target_link 1) (fold click [Target_toggleButton] (page_load Emoji demo_page)))
     = Some ''false'' \<and>
   \<not> is_open (page_load Emoji demo_page) \<and>
   click (Target_link 1) (page_load Emoji demo_page) = page_load Emoji demo_page"
  using link_click_closes [of demo_page 1 "[Target_toggleButton]" Emoji]
    link_click_closes [of demo_page 1 "[]" Emoji] demo_opened
  by (simp add: demo_hyps Let_def nav_state_load)

text \<open>
  C5. For every network, request and worker state, the page receives for an intercepted
  request exactly what the network settles that request with; the worker sends that one
  request, as it came, and touches neither the cache storage nor the console; the
  listener always answers through \<^verbatim>\<open>respondWith\<close>; a rejection by the network reaches the
  page as a rejection.
\<close>

theorem fetch_pass_through:
  "intercepted net rq w = (net rq, w\<lparr>fetched := fetched w @ [rq]\<rparr>) \<and>
   fst (on_fetch net \<lparr>request = rq, responded = None\<rparr> w) = \<lparr>request = rq, responded = Some (net rq)\<rparr> \<and>
   fst (intercepted (\<lambda>_. Rejected) rq w) = Rejected"
  by (simp add: intercepted_def on_fetch_def fetch_def respondWith_def)

text \<open>
  C6. Evaluation at the failing input: a page with no theme control and no icon
  elements. The emoji variant loads without an exception. The icon variant applies the
  theme and then throws \<^verbatim>\<open>TypeError\<close> in \<^verbatim>\<open>updateIcons\<close>, which reads \<^verbatim>\<open>sunIcon.style\<close> of a
  \<^verbatim>\<open>null\<close> node: the guard that \<^verbatim>\<open>updateEmoji\<close> has is missing there.
\<close>

theorem icon_variant_load_fault:
  "themeToggle bare_page = None \<and>
   uncaught (page_load Emoji bare_page) = [] \<and>
   uncaught (page_load Icons bare_page) = [TypeError] \<and>
   fst (DOMContentLoaded Icons bare_page) = Throw TypeError \<and>
   data_theme (page_load Icons bare_page) = Some ''light''"
  by code_simp

text \<open>
  C7. When the toggle button or the navigation container is missing, the menu block
  changes nothing: every listener on the loaded page is on the theme control, clicks on
  the toggle button and on links leave every later state as it is, the load of the
  emoji variant reports no exception, the theme is applied, and the theme listener is
  registered when the theme control exists.
\<close>

theorem menu_disabled_when_absent:
  assumes "toggleButton p = None \<or> mainNav p = None"
  shows "init_menu_toggle p = p \<and>
         (\<forall>tl \<in> set (listeners (page_load v p)). fst tl = Target_themeToggle) \<and>
         (let s = fold click ts (page_load v p) in
            click Target_toggleButton s = s \<and> click (Target_link i) s = s) \<and>
         uncaught (page_load Emoji p) = [] \<and>
         data_theme (page_load v p) = Some (savedTheme p) \<and>
         listeners (page_load Emoji p) =
           (if themeToggle p \<noteq> None then [(Target_themeToggle, On_themeToggle_click Emoji)] else [])"
proof -
  define s where "s = fold click ts (page_load v p)"
  have n: "nav_listeners p = []"
    using assms by (auto simp add: nav_listeners_def)
  have 1: "init_menu_toggle p = p"
    by (simp add: init_menu_toggle_eq n)
  have 2: "\<forall>tl \<in> set (listeners (page_load v p)). fst tl = Target_themeToggle"
    by (simp add: page_load_result n theme_listeners_def)
  have l: "loaded v p s"
    unfolding s_def by (intro loaded_fold loaded_load)
  from present_nth [OF run_present [of ts v p]] assms
  have a: "toggleButton s = None \<or> mainNav s = None"
    by (simp add: s_def)
  have 3: "click Target_toggleButton s = s \<and> click (Target_link i) s = s"
    using a by (auto simp add: click_none loaded_listeners_for [OF l])
  have 4: "listeners (page_load Emoji p) =
           (if themeToggle p \<noteq> None then [(Target_themeToggle, On_themeToggle_click Emoji)] else [])"
    by (simp add: page_load_result n theme_listeners_def indicator_faults_def)
  from 1 2 3 4 show ?thesis
    by (simp add: Let_def s_def [symmetric] load_uncaught data_theme_load)
qed

theorem menu_disabled_when_absent_witness:
  "toggleButton no_button_page = None \<and>
   mainNav no_button_page \<noteq> None \<and>
   init_menu_toggle no_button_page = no_button_page \<and>
   listeners (page_load Emoji no_button_page) = [(Target_themeToggle, On_themeToggle_click Emoji)] \<and>
   click Target_toggleButton (page_load Emoji no_button_page) = page_load Emoji no_button_page \<and>
   click (Target_link 0) (page_load Emoji no_button_page) = page_load Emoji no_button_page \<and>
   uncaught (page_load Emoji no_button_page) = [] \<and>
   data_theme (page_load Emoji no_button_page) = Some ''light''"
  using menu_disabled_when_absent [of no_button_page Emoji "[]" 0]
  by (simp add: no_button_values Let_def)

text \<open>
  C8. The install listener appends the one message to the console and changes nothing
  else of the worker state: the cache storage and the requests sent stay as they were.
\<close>

theorem install_only_logs:
  "on_install w = w\<lparr>console := console w @ [''Service Worker: Installed'']\<rparr> \<and>
   caches (on_install w) = caches w \<and> fetched (on_install w) = fetched w"
  by (simp add: on_install_def console_log_def)

text \<open>
  C9. Evaluation at the failing input: a page with the theme control and without the
  icon elements, nothing stored, one click on the control. The emoji variant goes from
  \<^verbatim>\<open>light\<close> to \<^verbatim>\<open>dark\<close> and writes \<^verbatim>\<open>dark\<close> to storage. The icon variant applies
  \<^verbatim>\<open>light\<close>, throws \<^verbatim>\<open>TypeError\<close> in \<^verbatim>\<open>updateIcons\<close> before it registers the click
  listener, and the click changes nothing: the two traces differ. Where the icons exist
  whenever the control does, the traces agree (\<open>same_theme_machine_with_icons\<close>).
\<close>

theorem icon_variant_diverges_without_icons:
  "theme_trace Emoji no_icons_page [Target_themeToggle] =
     [(Some ''light'', [], []), (Some ''dark'', [(''theme'', ''dark'')], [(''theme'', ''dark'')])] \<and>
   theme_trace Icons no_icons_page [Target_themeToggle] =
     [(Some ''light'', [], []), (Some ''light'', [], [])] \<and>
   uncaught (page_load Icons no_icons_page) = [TypeError] \<and>
   listeners_for Target_themeToggle (page_load Icons no_icons_page) = []"
  by code_simp

text \<open>
  C10. A load applies the stored string as it is when it is not empty, whatever it is,
  and \<^verbatim>\<open>light\<close> when nothing or the empty string is stored (any page, both variants). With
  the theme listener registered (the control exists, and the icons for the icon
  variant), in every state reached by clicks after the load a click on the control
  leads to \<^verbatim>\<open>dark\<close> from any value but \<^verbatim>\<open>dark\<close> and to \<^verbatim>\<open>light\<close> from \<^verbatim>\<open>dark\<close>, so the
  theme is one of the two afterwards.
\<close>

theorem theme_load_and_click:
  assumes "themeToggle p \<noteq> None"
    and "v = Icons \<longrightarrow> sunIcon p \<noteq> None \<and> moonIcon p \<noteq> None"
  shows "data_theme (page_load v m) =
           (case getItem m ''theme'' of
              None \<Rightarrow> Some ''light''
            | Some x \<Rightarrow> if x = [] then Some ''light'' else Some x) \<and>
         (let s = fold click ts (page_load v p); s' = click Target_themeToggle s in
            (data_theme s \<noteq> Some ''dark'' \<longrightarrow> data_theme s' = Some ''dark'') \<and>
            (data_theme s = Some ''dark'' \<longrightarrow> data_theme s' = Some ''light'') \<and>
            data_theme s' \<in> {Some ''light'', Some ''dark''})"
proof -
  have f: "\<not> indicator_faults v p"
    using assms(2) by (simp add: indicator_faults_def)
  note r = run_theme_ready [OF assms(1) f, of ts]
  note c = click_themeToggle_theme(1) [OF r]
  have "data_theme (page_load v m) =
           (case getItem m ''theme'' of
              None \<Rightarrow> Some ''light''
            | Some x \<Rightarrow> if x = [] then Some ''light'' else Some x)"
    by (simp add: data_theme_load savedTheme_def split: option.splits)
  then show ?thesis
    by (simp add: Let_def c toggled_def)
qed

theorem theme_load_and_click_witness:
  "themeToggle blue_page \<noteq> None \<and>
   sunIcon blue_page \<noteq> None \<and> moonIcon blue_page \<noteq> None \<and>
   data_theme (page_load Icons blue_page) = Some ''blue'' \<and>
   data_theme (page_load Icons blue_page) \<noteq> Some ''dark'' \<and>
   data_theme (click Target_themeToggle (page_load Icons blue_page)) = Some ''dark'' \<and>
   data_theme (page_load Icons dark_page) = Some ''dark'' \<and>
   data_theme (click Target_themeToggle (page_load Icons dark_page)) = Some ''light''"
  using theme_load_and_click [of blue_page Icons blue_page "[]"]
    theme_load_and_click [of dark_page Icons dark_page "[]"]
  by (simp add: demo_theme_values Let_def)

end
